theory Spec2Isabelle
  imports Main "HOL-Library.Word" "HOL-Library.Sublist"
begin

section \<open>hashmyfiles: the environment of the program\<close>

text \<open>
  The program (\<^verbatim>\<open>main.py\<close>, \<^verbatim>\<open>database.py\<close>) talks to three libraries: \<^verbatim>\<open>os\<close> (the file
  system), \<^verbatim>\<open>hashlib\<close> (SHA-256) and \<^verbatim>\<open>sqlite3\<close> (the record store). They are modelled
  by what the program can observe of them; the functions of the two source files are
  then translated one by one on top of that model.

  A path is the string the program holds; two different strings are two different
  files (no symbolic or hard links). A file has its bytes and, beside them, what SQLite
  finds when it opens the file.
\<close>

type_synonym path = string
type_synonym byte = "8 word"
type_synonym row = "string \<times> string"

datatype sqlite_file =
    NotADatabase
  | Database "row list option"

text \<open>
  \<open>Database None\<close> is a database without the table \<^verbatim>\<open>hashes\<close> (an empty file is one);
  \<open>Database (Some rows)\<close> holds the table \<^verbatim>\<open>hashes(path TEXT PRIMARY KEY, hash TEXT)\<close>
  with its rows in insertion order.
\<close>

record regular_file =
  bytes :: "byte list"
  sqlite :: sqlite_file

datatype event =
    Print string
  | Hashed path
  | Query path string "string list option"

text \<open>
  The state of a run: the file system, and the trace of what the program did so far
  (every \<^verbatim>\<open>print\<close>, every file hashed, every statement sent to SQLite).
  \<^item> \<open>isdir\<close> is \<^verbatim>\<open>os.path.isdir\<close>;
  \<^item> \<open>walk top\<close> is what \<^verbatim>\<open>os.walk(top)\<close> yields: triples (root, directory names,
    file names);
  \<^item> \<open>files\<close> holds the regular files, so \<^verbatim>\<open>os.path.isfile\<close> is \<open>files s p \<noteq> None\<close>;
  \<^item> \<open>creatable p\<close> says that SQLite can create a database at the absent path \<open>p\<close>
    (its directory exists and can be written);
  \<^item> \<open>sqlite_image\<close> gives the bytes SQLite writes for a database.
\<close>

record state =
  isdir :: "path \<Rightarrow> bool"
  walk :: "path \<Rightarrow> (path \<times> string list \<times> string list) list"
  files :: "path \<rightharpoonup> regular_file"
  creatable :: "path \<Rightarrow> bool"
  sqlite_image :: "sqlite_file \<Rightarrow> byte list"
  trace :: "event list"

datatype py_exception =
    SystemExit int
  | TypeError
  | FileNotFoundError path

definition isfile :: "state \<Rightarrow> path \<Rightarrow> bool" where
  "isfile s p = (case files s p of None \<Rightarrow> False | Some f \<Rightarrow> True)"

definition emit :: "event \<Rightarrow> state \<Rightarrow> state" where
  "emit e s = s\<lparr>trace := trace s @ [e]\<rparr>"

definition print :: "string \<Rightarrow> state \<Rightarrow> state" where
  "print line s = emit (Print line) s"

subsection \<open>Strings and paths\<close>

definition startswith :: "string \<Rightarrow> string \<Rightarrow> bool" where
  "startswith s pre = (take (length pre) s = pre)"

definition endswith :: "string \<Rightarrow> string \<Rightarrow> bool" where
  "endswith s suf = (length suf \<le> length s \<and> drop (length s - length suf) s = suf)"

text \<open>\<^verbatim>\<open>str.endswith\<close> with a tuple: true when one of the suffixes matches.\<close>

definition endswith_any :: "string \<Rightarrow> string list \<Rightarrow> bool" where
  "endswith_any s sufs = list_ex (endswith s) sufs"

definition lower_char :: "char \<Rightarrow> char" where
  "lower_char c =
     (case map_of (zip ''ABCDEFGHIJKLMNOPQRSTUVWXYZ'' ''abcdefghijklmnopqrstuvwxyz'') c of
        None \<Rightarrow> c
      | Some d \<Rightarrow> d)"

definition lower :: "string \<Rightarrow> string" where
  "lower s = map lower_char s"

text \<open>\<^verbatim>\<open>os.path.join\<close> of two components (\<^verbatim>\<open>posixpath\<close>).\<close>

definition path_join :: "path \<Rightarrow> string \<Rightarrow> path" where
  "path_join a b =
     (if startswith b ''/'' then b
      else if a = [] \<or> endswith a ''/'' then a @ b
      else a @ ''/'' @ b)"

text \<open>\<^verbatim>\<open>os.path.basename\<close>: what follows the last slash.\<close>

definition basename :: "path \<Rightarrow> string" where
  "basename p = rev (takeWhile (\<lambda>c. c \<noteq> CHR ''/'') (rev p))"

text \<open>\<^verbatim>\<open>str\<close> of a natural number, for \<^verbatim>\<open>len(...)\<close> inside an f-string.\<close>

definition digit :: "nat \<Rightarrow> char" where
  "digit d = ''0123456789'' ! d"

fun str_nat :: "nat \<Rightarrow> string" where
  "str_nat n = (if n < 10 then [digit n] else str_nat (n div 10) @ [digit (n mod 10)])"

declare str_nat.simps [simp del]

subsection \<open>The constants of main.py\<close>

definition MEDIA_EXTENSIONS :: "string list" where
  "MEDIA_EXTENSIONS = [''.mp4'', ''.mkv'']"

definition BLOCK_SIZE :: nat where
  "BLOCK_SIZE = 65536"

definition DB_FILE :: string where
  "DB_FILE = ''hashmyfiles.db''"

section \<open>main.py: hashing a file\<close>

text \<open>
  \<^verbatim>\<open>hashlib.sha256()\<close> is modelled by its contract: the object holds the bytes it was
  fed (\<^verbatim>\<open>update\<close> appends) and \<^verbatim>\<open>hexdigest\<close> is the digest of those bytes. The digest
  function itself is a parameter \<open>H\<close> of the model (SHA-256 in hex).

  An open file is the bytes not read yet: \<^verbatim>\<open>f.read(n)\<close> returns the next \<open>n\<close> bytes (fewer
  at the end of the file) and advances.
\<close>

type_synonym digest = "byte list \<Rightarrow> string"

definition sha256_update :: "byte list \<Rightarrow> byte list \<Rightarrow> byte list" where
  "sha256_update h block = h @ block"

definition f_read :: "nat \<Rightarrow> byte list \<Rightarrow> byte list \<times> byte list" where
  "f_read n f = (take n f, drop n f)"

text \<open>
  The loop \<^verbatim>\<open>for block in iter(lambda: f.read(BLOCK_SIZE), b'')\<close>: read a block, stop at
  the empty one, otherwise feed it to the hash object.
\<close>

function read_loop :: "nat \<Rightarrow> byte list \<Rightarrow> byte list \<Rightarrow> byte list" where
  "read_loop n f h =
     (case f_read n f of
        (block, f') \<Rightarrow> if block = [] then h else read_loop n f' (sha256_update h block))"
  by pat_completeness auto
termination
  by (relation "measure (\<lambda>(n, f, h). length f)") (auto simp: f_read_def)

declare read_loop.simps [simp del]

text \<open>
  \<^verbatim>\<open>generate_sha256_hash(file_path)\<close>. \<^verbatim>\<open>open\<close> raises when there is no file at the path.
\<close>

definition generate_sha256_hash ::
  "digest \<Rightarrow> state \<Rightarrow> path \<Rightarrow> (py_exception + string) \<times> state" where
  "generate_sha256_hash H s file_path =
     (case files s file_path of
        None \<Rightarrow> (Inl (FileNotFoundError file_path), s)
      | Some f \<Rightarrow>
          (let sha256 = read_loop BLOCK_SIZE (bytes f) []
           in (Inr (H sha256), emit (Hashed file_path) s)))"

section \<open>The record store: SQLite as database.py uses it\<close>

text \<open>
  \<^verbatim>\<open>sqlite3.Error\<close> and the subclasses that can reach \<^verbatim>\<open>execute_query\<close>, each with its
  message (\<^verbatim>\<open>str(e)\<close>).
\<close>

datatype sqlite_error =
    OperationalError string
  | DatabaseError string
  | IntegrityError string
  | ProgrammingError string

fun message :: "sqlite_error \<Rightarrow> string" where
  "message (OperationalError m) = m"
| "message (DatabaseError m) = m"
| "message (IntegrityError m) = m"
| "message (ProgrammingError m) = m"

text \<open>
  The four statements of \<^verbatim>\<open>database.py\<close>. SQLite is modelled on these four only: any
  other text is refused as a syntax error.
\<close>

datatype statement = CreateTable | SelectAll | SelectPath | InsertRow

definition SQL_CREATE :: string where
  "SQL_CREATE = ''CREATE TABLE IF NOT EXISTS hashes (path TEXT PRIMARY KEY, hash TEXT)''"

definition SQL_SELECT_ALL :: string where
  "SQL_SELECT_ALL = ''SELECT * FROM hashes''"

definition SQL_SELECT_PATH :: string where
  "SQL_SELECT_PATH = ''SELECT * FROM hashes WHERE path=?''"

definition SQL_INSERT :: string where
  "SQL_INSERT = ''INSERT INTO hashes VALUES (?, ?)''"

definition prepare :: "string \<Rightarrow> statement option" where
  "prepare query =
     (if query = SQL_CREATE then Some CreateTable
      else if query = SQL_SELECT_ALL then Some SelectAll
      else if query = SQL_SELECT_PATH then Some SelectPath
      else if query = SQL_INSERT then Some InsertRow
      else None)"

text \<open>
  One statement on the table (\<open>None\<close>: the table does not exist), with the values bound
  to its placeholders: the rows it returns and the table afterwards, or the error.
  Inserting a path that is already there violates the primary key.
\<close>

fun sqlite_step ::
  "statement \<Rightarrow> row list option \<Rightarrow> string list \<Rightarrow> sqlite_error + (row list \<times> row list option)" where
  "sqlite_step CreateTable None [] = Inr ([], Some [])"
| "sqlite_step CreateTable (Some rows) [] = Inr ([], Some rows)"
| "sqlite_step CreateTable t ps = Inl (ProgrammingError ''Incorrect number of bindings supplied'')"
| "sqlite_step st None ps = Inl (OperationalError ''no such table: hashes'')"
| "sqlite_step SelectAll (Some rows) [] = Inr (rows, Some rows)"
| "sqlite_step SelectPath (Some rows) [p] = Inr (filter (\<lambda>r. fst r = p) rows, Some rows)"
| "sqlite_step InsertRow (Some rows) [p, h] =
     (if p \<in> set (map fst rows)
      then Inl (IntegrityError ''UNIQUE constraint failed: hashes.path'')
      else Inr ([], Some (rows @ [(p, h)])))"
| "sqlite_step st (Some rows) ps = Inl (ProgrammingError ''Incorrect number of bindings supplied'')"

definition cursor_execute ::
  "sqlite_file \<Rightarrow> string \<Rightarrow> string list \<Rightarrow> sqlite_error + (row list \<times> sqlite_file)" where
  "cursor_execute db query ps =
     (case db of
        NotADatabase \<Rightarrow> Inl (DatabaseError ''file is not a database'')
      | Database t \<Rightarrow>
          (case prepare query of
             None \<Rightarrow> Inl (OperationalError ''syntax error'')
           | Some st \<Rightarrow>
               (case sqlite_step st t ps of
                  Inl e \<Rightarrow> Inl e
                | Inr (rows, t') \<Rightarrow> Inr (rows, Database t'))))"

text \<open>
  A file that SQLite creates appears in the listing of its directory: in every triple of
  a walk whose root, joined with the file's name, is the file's path.
\<close>

definition add_entry ::
  "path \<Rightarrow> path \<times> string list \<times> string list \<Rightarrow> path \<times> string list \<times> string list" where
  "add_entry p t =
     (case t of (root, dirs, names) \<Rightarrow>
        if path_join root (basename p) = p then (root, dirs, names @ [basename p]) else t)"

definition create_file :: "path \<Rightarrow> regular_file \<Rightarrow> state \<Rightarrow> state" where
  "create_file p f s =
     s\<lparr>files := (files s)(p \<mapsto> f), walk := (\<lambda>top. map (add_entry p) (walk s top))\<rparr>"

text \<open>
  \<^verbatim>\<open>sqlite3.connect(db_file)\<close>: opens the file, or creates an empty database (a file of
  no bytes) where there is none; raises when it can do neither.
\<close>

definition sqlite3_connect :: "state \<Rightarrow> path \<Rightarrow> sqlite_error + (regular_file \<times> state)" where
  "sqlite3_connect s db_file =
     (case files s db_file of
        Some f \<Rightarrow> Inr (f, s)
      | None \<Rightarrow>
          if creatable s db_file
          then (let f = \<lparr>bytes = [], sqlite = Database None\<rparr> in Inr (f, create_file db_file f s))
          else Inl (OperationalError ''unable to open database file''))"

text \<open>\<^verbatim>\<open>conn.commit()\<close>: a changed database is written back to its file.\<close>

definition conn_commit :: "path \<Rightarrow> regular_file \<Rightarrow> sqlite_file \<Rightarrow> state \<Rightarrow> state" where
  "conn_commit db_file f db s =
     (if db = sqlite f then s
      else s\<lparr>files := (files s)(db_file \<mapsto> \<lparr>bytes = sqlite_image s db, sqlite = db\<rparr>)\<rparr>)"

section \<open>database.py\<close>

text \<open>Python's truth value of a query result or of a parameter tuple: \<^verbatim>\<open>None\<close> and the empty
  sequence are false.\<close>

fun truthy :: "'a list option \<Rightarrow> bool" where
  "truthy None = False"
| "truthy (Some []) = False"
| "truthy (Some (x # xs)) = True"

text \<open>
  \<^verbatim>\<open>execute_query(db_file, query, parameters=None)\<close>. The result is \<^verbatim>\<open>None\<close> or the list of
  rows fetched. Any \<^verbatim>\<open>sqlite3.Error\<close> is caught, printed, and \<^verbatim>\<open>None\<close> is returned; a failed
  statement leaves the database as it was.
\<close>

definition execute_query ::
  "state \<Rightarrow> path \<Rightarrow> string \<Rightarrow> string list option \<Rightarrow> row list option \<times> state" where
  "execute_query s db_file query parameters =
     (let s0 = emit (Query db_file query parameters) s in
      case sqlite3_connect s0 db_file of
        Inl e \<Rightarrow> (None, print (''SQLite error: '' @ message e) s0)
      | Inr (f, s1) \<Rightarrow>
          (case cursor_execute (sqlite f) query
                  (if truthy parameters then the parameters else []) of
             Inl e \<Rightarrow> (None, print (''SQLite error: '' @ message e) s1)
           | Inr (rows, db) \<Rightarrow>
               (let result = (if startswith (lower query) ''select'' then Some rows else None)
                in (result, conn_commit db_file f db s1))))"

definition media_file_exist :: "state \<Rightarrow> path \<Rightarrow> path \<Rightarrow> bool \<times> state" where
  "media_file_exist s db_file p =
     (let query = ''SELECT * FROM hashes WHERE path=?'';
          (result, s') = execute_query s db_file query (Some [p])
      in (truthy result, s'))"

definition get_hashes :: "state \<Rightarrow> path \<Rightarrow> row list option \<times> state" where
  "get_hashes s db_file =
     (let query = ''SELECT * FROM hashes''
      in execute_query s db_file query None)"

definition add_hash :: "state \<Rightarrow> path \<Rightarrow> path \<Rightarrow> string \<Rightarrow> state" where
  "add_hash s db_file p generated_hash =
     (let query = ''INSERT INTO hashes VALUES (?, ?)''
      in snd (execute_query s db_file query (Some [p, generated_hash])))"

definition create_new_database :: "state \<Rightarrow> path \<Rightarrow> state" where
  "create_new_database s db_file =
     (let query = ''CREATE TABLE IF NOT EXISTS hashes '' @ ''(path TEXT PRIMARY KEY, hash TEXT)''
      in snd (execute_query s db_file query None))"

section \<open>main.py: finding the media files\<close>

text \<open>
  \<^verbatim>\<open>find_files_with_extension(dir_path, extensions)\<close>: the two nested loops, with the list
  \<^verbatim>\<open>files\<close> they append to.
\<close>

fun find_files_inner :: "string list \<Rightarrow> path \<Rightarrow> string list \<Rightarrow> path list \<Rightarrow> path list" where
  "find_files_inner extensions root [] found = found"
| "find_files_inner extensions root (name # files_list) found =
     find_files_inner extensions root files_list
       (if endswith_any name extensions then found @ [path_join root name] else found)"

fun find_files_outer ::
  "string list \<Rightarrow> (path \<times> string list \<times> string list) list \<Rightarrow> path list \<Rightarrow> path list" where
  "find_files_outer extensions [] found = found"
| "find_files_outer extensions ((root, dirs, files_list) # triples) found =
     find_files_outer extensions triples (find_files_inner extensions root files_list found)"

definition find_files_with_extension :: "state \<Rightarrow> path \<Rightarrow> string list \<Rightarrow> path list" where
  "find_files_with_extension s dir_path extensions =
     find_files_outer extensions (walk s dir_path) []"

section \<open>main.py: generate\<close>

text \<open>
  The loop of \<^verbatim>\<open>generate\<close> over \<^verbatim>\<open>media_files\<close>. It stops early only when hashing raises;
  the exception is then the result.
\<close>

fun generate_loop ::
  "digest \<Rightarrow> path \<Rightarrow> path list \<Rightarrow> state \<Rightarrow> py_exception option \<times> state" where
  "generate_loop H db_file [] s = (None, s)"
| "generate_loop H db_file (media_file # media_files) s =
     (case media_file_exist s db_file media_file of
        (True, s1) \<Rightarrow> generate_loop H db_file media_files s1
      | (False, s1) \<Rightarrow>
          (case generate_sha256_hash H (print (''Generate hash for: '' @ media_file) s1)
                  media_file of
             (Inl e, s2) \<Rightarrow> (Some e, s2)
           | (Inr generated_hash, s2) \<Rightarrow>
               generate_loop H db_file media_files
                 (add_hash s2 db_file media_file generated_hash)))"

text \<open>
  \<^verbatim>\<open>generate(dir_path)\<close> never returns: it ends in \<^verbatim>\<open>sys.exit\<close>, or in the exception that
  escaped. The result is that exception and the state reached.
\<close>

definition generate :: "digest \<Rightarrow> state \<Rightarrow> path \<Rightarrow> py_exception \<times> state" where
  "generate H s dir_path =
     (if isdir s dir_path then
        (let db_file = path_join dir_path DB_FILE;
             s1 = (if isfile s db_file
                   then print (db_file @ '' exists. Will look for new files...'' @ [CHR 0x0A]) s
                   else create_new_database
                          (print (db_file @ '' does not exist. Creating a new database...''
                                    @ [CHR 0x0A]) s)
                          db_file);
             media_files = find_files_with_extension s1 dir_path MEDIA_EXTENSIONS
         in case generate_loop H db_file media_files s1 of
              (Some e, s2) \<Rightarrow> (e, s2)
            | (None, s2) \<Rightarrow> (SystemExit 0, print ''Done'' s2))
      else (SystemExit 1, print (dir_path @ '' is not a directory'') s))"

section \<open>main.py: verify\<close>

type_synonym corrupted = "path \<times> string \<times> string"

text \<open>The loop of \<^verbatim>\<open>verify\<close> over the rows of the store, with the list \<^verbatim>\<open>corrupted_files\<close>.\<close>

fun verify_loop ::
  "digest \<Rightarrow> row list \<Rightarrow> corrupted list \<Rightarrow> state \<Rightarrow> (py_exception + corrupted list) \<times> state" where
  "verify_loop H [] corrupted_files s = (Inr corrupted_files, s)"
| "verify_loop H (db_hash # db_hashes) corrupted_files s =
     (let media_file = fst db_hash in
      if \<not> isfile s media_file then
        verify_loop H db_hashes
          (corrupted_files @ [(media_file, snd db_hash, ''File not found'')])
          (print (media_file @ '' [Corrupted]'') s)
      else
        (case generate_sha256_hash H s media_file of
           (Inl e, s1) \<Rightarrow> (Inl e, s1)
         | (Inr generated_hash, s1) \<Rightarrow>
             if generated_hash = snd db_hash then
               verify_loop H db_hashes corrupted_files (print (media_file @ '' [OK]'') s1)
             else
               verify_loop H db_hashes
                 (corrupted_files @ [(media_file, snd db_hash, generated_hash)])
                 (print (media_file @ '' [Corrupted]'') s1)))"

text \<open>The report of the corrupted files, three lines each.\<close>

fun print_corrupted :: "corrupted list \<Rightarrow> state \<Rightarrow> state" where
  "print_corrupted [] s = s"
| "print_corrupted ((media_file, expected, actual) # corrupted_files) s =
     print_corrupted corrupted_files
       (print (''File hash: '' @ actual @ [CHR 0x0A])
         (print (''Expected hash: '' @ expected)
           (print (''File: '' @ media_file) s)))"

text \<open>
  \<^verbatim>\<open>verify(dir_path)\<close>. Iterating over \<^verbatim>\<open>None\<close>, which \<^verbatim>\<open>get_hashes\<close> returns when the query
  failed, raises \<^verbatim>\<open>TypeError\<close>.
\<close>

definition verify :: "digest \<Rightarrow> state \<Rightarrow> path \<Rightarrow> py_exception \<times> state" where
  "verify H s dir_path =
     (let db_file = path_join dir_path DB_FILE in
      if \<not> isfile s db_file then
        (SystemExit 1, print (db_file @ '' does not exist. Please generate hashes first.'') s)
      else
        (case get_hashes (print (db_file @ '' exists. Verifying files...'' @ [CHR 0x0A]) s)
                db_file of
           (None, s1) \<Rightarrow> (TypeError, s1)
         | (Some db_hashes, s1) \<Rightarrow>
             (case verify_loop H db_hashes [] s1 of
                (Inl e, s2) \<Rightarrow> (e, s2)
              | (Inr corrupted_files, s2) \<Rightarrow>
                  if corrupted_files \<noteq> [] then
                    (SystemExit 1,
                     print_corrupted corrupted_files
                       (print ([CHR 0x0A] @ str_nat (length corrupted_files)
                                 @ '' corrupted files:'') s2))
                  else (SystemExit 0, print ([CHR 0x0A] @ ''No corrupted files found'') s2))))"

section \<open>main.py: the command line\<close>

text \<open>
  The script body, on \<^verbatim>\<open>sys.argv\<close>. A \<^verbatim>\<open>KeyboardInterrupt\<close> comes from outside the program
  and is not part of the model.
\<close>

definition main :: "digest \<Rightarrow> state \<Rightarrow> string list \<Rightarrow> py_exception \<times> state" where
  "main H s argv =
     (let args = drop 1 argv in
      if length args < 2 then (SystemExit 1, print ''Not enough arguments'' s)
      else
        (let option = args ! 0; directory = args ! 1 in
         if option = ''-g'' then generate H s directory
         else if option = ''-v'' then verify H s directory
         else (SystemExit 1, print ''Invalid option'' s)))"


section \<open>Describing a run\<close>

text \<open>
  The notions the properties below are stated with. They follow the specification's
  words, not the code: the digest of a whole content in one pass, the verdict on a stored
  record, the records of a store, the files a stretch of trace hashed.
\<close>

text \<open>\<^verbatim>\<open>hashlib.sha256(content).hexdigest()\<close>: the digest of the whole content, fed at once.\<close>

definition sha256_hexdigest :: "digest \<Rightarrow> byte list \<Rightarrow> string" where
  "sha256_hexdigest H content = H (sha256_update [] content)"

text \<open>
  The verdict on a stored record (path, hash): corrupted with the reason
  \<^verbatim>\<open>File not found\<close> when no file is at the path; otherwise the digest of the file is
  compared with the stored hash, and a mismatch is corrupted with the expected and the
  actual hash.
\<close>

datatype verdict = Ok | Corrupted string string

definition classify :: "digest \<Rightarrow> (path \<rightharpoonup> regular_file) \<Rightarrow> row \<Rightarrow> verdict" where
  "classify H fs r =
     (case fs (fst r) of
        None \<Rightarrow> Corrupted (snd r) ''File not found''
      | Some f \<Rightarrow>
          if sha256_hexdigest H (bytes f) = snd r then Ok
          else Corrupted (snd r) (sha256_hexdigest H (bytes f)))"

text \<open>What a record adds to the list of corrupted files, and what it adds to the trace:
  a file is hashed only when it exists, and one status line is printed.\<close>

definition report :: "digest \<Rightarrow> (path \<rightharpoonup> regular_file) \<Rightarrow> row \<Rightarrow> corrupted list" where
  "report H fs r = (case classify H fs r of Ok \<Rightarrow> [] | Corrupted e a \<Rightarrow> [(fst r, e, a)])"

definition record_events :: "digest \<Rightarrow> (path \<rightharpoonup> regular_file) \<Rightarrow> row \<Rightarrow> event list" where
  "record_events H fs r =
     (case fs (fst r) of None \<Rightarrow> [] | Some f \<Rightarrow> [Hashed (fst r)]) @
     [Print (fst r @ (case classify H fs r of Ok \<Rightarrow> '' [OK]'' | Corrupted e a \<Rightarrow> '' [Corrupted]''))]"

fun corrupted_lines :: "corrupted \<Rightarrow> event list" where
  "corrupted_lines (media_file, expected, actual) =
     [Print (''File: '' @ media_file), Print (''Expected hash: '' @ expected),
      Print (''File hash: '' @ actual @ [CHR 0x0A])]"

text \<open>The records of the store at a path: \<open>None\<close> when no file is there, or the file is not
  a database holding the table.\<close>

definition store_rows :: "state \<Rightarrow> path \<Rightarrow> row list option" where
  "store_rows s db_file =
     (case files s db_file of
        None \<Rightarrow> None
      | Some f \<Rightarrow> (case sqlite f of NotADatabase \<Rightarrow> None | Database t \<Rightarrow> t))"


text \<open>The files hashed in a stretch of trace, and the test that an event is no write to
  a store (a query is a write unless it is a \<^verbatim>\<open>SELECT\<close>).\<close>

fun hashed :: "event list \<Rightarrow> path list" where
  "hashed [] = []"
| "hashed (Hashed p # es) = p # hashed es"
| "hashed (e # es) = hashed es"

fun select_only :: "event \<Rightarrow> bool" where
  "select_only (Query p q ps) = startswith (lower q) ''select''"
| "select_only e = True"


text \<open>The events a run added to the trace it started from.\<close>

definition new_events :: "state \<Rightarrow> state \<Rightarrow> event list" where
  "new_events s s' = drop (length (trace s)) (trace s')"

text \<open>The whole run of verify: its events and its end, read off the store and the files.\<close>

definition verify_events :: "digest \<Rightarrow> state \<Rightarrow> path \<Rightarrow> event list" where
  "verify_events H s dir_path =
     (let db_file = path_join dir_path DB_FILE in
      case files s db_file of
        None \<Rightarrow> [Print (db_file @ '' does not exist. Please generate hashes first.'')]
      | Some f \<Rightarrow>
          [Print (db_file @ '' exists. Verifying files...'' @ [CHR 0x0A]),
           Query db_file SQL_SELECT_ALL None] @
          (case sqlite f of
             NotADatabase \<Rightarrow> [Print ''SQLite error: file is not a database'']
           | Database None \<Rightarrow> [Print ''SQLite error: no such table: hashes'']
           | Database (Some rows) \<Rightarrow>
               concat (map (record_events H (files s)) rows) @
               (let corrupted_files = concat (map (report H (files s)) rows) in
                if corrupted_files \<noteq> [] then
                  Print ([CHR 0x0A] @ str_nat (length corrupted_files) @ '' corrupted files:'')
                  # concat (map corrupted_lines corrupted_files)
                else [Print ([CHR 0x0A] @ ''No corrupted files found'')])))"

definition verify_result :: "digest \<Rightarrow> state \<Rightarrow> path \<Rightarrow> py_exception" where
  "verify_result H s dir_path =
     (case files s (path_join dir_path DB_FILE) of
        None \<Rightarrow> SystemExit 1
      | Some f \<Rightarrow>
          (case sqlite f of
             Database (Some rows) \<Rightarrow>
               if list_all (\<lambda>r. classify H (files s) r = Ok) rows then SystemExit 0
               else SystemExit 1
           | _ \<Rightarrow> TypeError))"




section \<open>An example directory\<close>

text \<open>
  The directory \<^verbatim>\<open>d\<close> of the specification's scenario: \<^verbatim>\<open>a.mp4\<close> with the content
  \<^verbatim>\<open>X\<close>, and \<^verbatim>\<open>b.txt\<close>; the store file is absent (\<open>None\<close>) or holds the given database.
  In the examples the length of the content, in decimal, stands in for its SHA-256.
\<close>

definition example_digest :: digest where
  "example_digest content = str_nat (length content)"

definition example_image :: "sqlite_file \<Rightarrow> byte list" where
  "example_image db = (case db of Database (Some rows) \<Rightarrow> [0x53] | _ \<Rightarrow> [])"

definition example_state :: "sqlite_file option \<Rightarrow> state" where
  "example_state store =
     \<lparr>isdir = (\<lambda>p. p = ''d''),
      walk = (\<lambda>top. if top = ''d''
                then [(''d'', [], [''a.mp4'', ''b.txt''] @
                        (case store of None \<Rightarrow> [] | Some db \<Rightarrow> [''hashmyfiles.db'']))]
                else []),
      files = (\<lambda>p. if p = ''d/a.mp4'' then Some \<lparr>bytes = [0x58], sqlite = NotADatabase\<rparr>
                else if p = ''d/b.txt'' then Some \<lparr>bytes = [], sqlite = Database None\<rparr>
                else if p = ''d/hashmyfiles.db''
                  then map_option (\<lambda>db. \<lparr>bytes = example_image db, sqlite = db\<rparr>) store
                else None),
      creatable = (\<lambda>p. p = ''d/hashmyfiles.db''),
      sqlite_image = example_image,
      trace = []\<rparr>"


section \<open>Facts about the environment and the store\<close>

lemma emit_simps [simp]:
  "files (emit e s) = files s" "walk (emit e s) = walk s" "isdir (emit e s) = isdir s"
  "creatable (emit e s) = creatable s" "sqlite_image (emit e s) = sqlite_image s"
  "trace (emit e s) = trace s @ [e]"
  by (simp_all add: emit_def)

lemma print_simps [simp]:
  "files (print l s) = files s" "walk (print l s) = walk s" "isdir (print l s) = isdir s"
  "creatable (print l s) = creatable s" "sqlite_image (print l s) = sqlite_image s"
  "trace (print l s) = trace s @ [Print l]"
  by (simp_all add: print_def)

lemma isfile_emit [simp]: "isfile (emit e s) p = isfile s p" "isfile (print l s) p = isfile s p"
  by (simp_all add: isfile_def)

lemma trace_upd_emit: "emit e (s\<lparr>trace := t\<rparr>) = s\<lparr>trace := t @ [e]\<rparr>"
  by (simp add: emit_def)

lemma trace_upd_print: "print l (s\<lparr>trace := t\<rparr>) = s\<lparr>trace := t @ [Print l]\<rparr>"
  by (simp add: print_def emit_def)

lemma print_as_upd: "print l s = s\<lparr>trace := trace s @ [Print l]\<rparr>"
  by (simp add: print_def emit_def)


lemma prepare_simps [simp]:
  "prepare ''SELECT * FROM hashes'' = Some SelectAll"
  "prepare ''SELECT * FROM hashes WHERE path=?'' = Some SelectPath"
  "prepare ''INSERT INTO hashes VALUES (?, ?)'' = Some InsertRow"
  "prepare ''CREATE TABLE IF NOT EXISTS hashes (path TEXT PRIMARY KEY, hash TEXT)''
     = Some CreateTable"
  by (simp_all add: prepare_def SQL_CREATE_def SQL_SELECT_ALL_def SQL_SELECT_PATH_def
      SQL_INSERT_def)

lemma is_select_simps [simp]:
  "startswith (lower ''SELECT * FROM hashes'') ''select''"
  "startswith (lower ''SELECT * FROM hashes WHERE path=?'') ''select''"
  "\<not> startswith (lower ''INSERT INTO hashes VALUES (?, ?)'') ''select''"
  "\<not> startswith
       (lower ''CREATE TABLE IF NOT EXISTS hashes (path TEXT PRIMARY KEY, hash TEXT)'')
       ''select''"
  by (simp_all add: startswith_def lower_def lower_char_def)

subsection \<open>Suffixes and candidate files\<close>









subsection \<open>Hashing\<close>

lemma read_loop_append: "0 < n \<Longrightarrow> read_loop n f h = h @ f"
proof (induction n f h rule: read_loop.induct)
  case (1 n f h)
  show ?case
  proof (cases "take n f = []")
    case True
    with "1.prems" have "f = []" by (cases f) auto
    then show ?thesis by (subst read_loop.simps) (simp add: f_read_def)
  next
    case False
    have "read_loop n f h = read_loop n (drop n f) (sha256_update h (take n f))"
      using False by (subst read_loop.simps) (simp add: f_read_def)
    also have "\<dots> = sha256_update h (take n f) @ drop n f"
      using "1.IH" False "1.prems" by (simp add: f_read_def)
    finally show ?thesis by (simp add: sha256_update_def)
  qed
qed

lemma generate_sha256_hash_eq:
  "generate_sha256_hash H s p =
     (case files s p of
        None \<Rightarrow> (Inl (FileNotFoundError p), s)
      | Some f \<Rightarrow> (Inr (sha256_hexdigest H (bytes f)), emit (Hashed p) s))"
  by (simp add: generate_sha256_hash_def read_loop_append BLOCK_SIZE_def sha256_hexdigest_def
      sha256_update_def split: option.split)

subsection \<open>The run of verify\<close>

lemma verify_loop_eq:
  "verify_loop H rows acc (s\<lparr>trace := t\<rparr>) =
     (Inr (acc @ concat (map (report H (files s)) rows)),
      s\<lparr>trace := t @ concat (map (record_events H (files s)) rows)\<rparr>)"
proof (induction rows arbitrary: acc t)
  case Nil
  show ?case by simp
next
  case (Cons r rows)
  show ?case
  proof (cases "files s (fst r)")
    case None
    then have "report H (files s) r = [(fst r, snd r, ''File not found'')]"
      "record_events H (files s) r = [Print (fst r @ '' [Corrupted]'')]"
      by (simp_all add: report_def classify_def record_events_def)
    with None show ?thesis
      by (simp add: isfile_def trace_upd_print Cons.IH Let_def)
  next
    case (Some f)
    show ?thesis
    proof (cases "sha256_hexdigest H (bytes f) = snd r")
      case True
      with Some have "report H (files s) r = []"
        "record_events H (files s) r = [Hashed (fst r), Print (fst r @ '' [OK]'')]"
        by (simp_all add: report_def classify_def record_events_def)
      with Some True show ?thesis
        by (simp add: isfile_def generate_sha256_hash_eq trace_upd_print trace_upd_emit
            Cons.IH Let_def)
    next
      case False
      with Some have "report H (files s) r = [(fst r, snd r, sha256_hexdigest H (bytes f))]"
        "record_events H (files s) r = [Hashed (fst r), Print (fst r @ '' [Corrupted]'')]"
        by (simp_all add: report_def classify_def record_events_def)
      with Some False show ?thesis
        by (simp add: isfile_def generate_sha256_hash_eq trace_upd_print trace_upd_emit
            Cons.IH Let_def)
    qed
  qed
qed

lemma print_corrupted_eq:
  "print_corrupted cs (s\<lparr>trace := t\<rparr>) = s\<lparr>trace := t @ concat (map corrupted_lines cs)\<rparr>"
  by (induction cs arbitrary: t) (auto simp: trace_upd_print)

lemma get_hashes_existing:
  assumes "files s db_file = Some f"
  shows "get_hashes (s\<lparr>trace := t\<rparr>) db_file =
     (case sqlite f of
        Database (Some rows) \<Rightarrow> (Some rows, s\<lparr>trace := t @ [Query db_file SQL_SELECT_ALL None]\<rparr>)
      | Database None \<Rightarrow>
          (None, s\<lparr>trace := t @ [Query db_file SQL_SELECT_ALL None,
                                  Print ''SQLite error: no such table: hashes'']\<rparr>)
      | NotADatabase \<Rightarrow>
          (None, s\<lparr>trace := t @ [Query db_file SQL_SELECT_ALL None,
                                  Print ''SQLite error: file is not a database'']\<rparr>))"
  using assms
  by (simp add: get_hashes_def execute_query_def sqlite3_connect_def cursor_execute_def
      conn_commit_def trace_upd_emit trace_upd_print SQL_SELECT_ALL_def
      split: sqlite_file.split option.split)

lemma report_Nil: "report H fs r = [] \<longleftrightarrow> classify H fs r = Ok"
  by (simp add: report_def split: verdict.splits)

lemma verify_eq:
  "verify H s d = (verify_result H s d, s\<lparr>trace := trace s @ verify_events H s d\<rparr>)"
proof (cases "files s (path_join d DB_FILE)")
  case None
  then show ?thesis
    by (simp add: verify_def verify_result_def verify_events_def isfile_def print_as_upd
        Let_def)
next
  case (Some f)
  show ?thesis
  proof (cases "sqlite f")
    case NotADatabase
    with Some show ?thesis
      by (simp add: verify_def verify_result_def verify_events_def isfile_def print_as_upd
          get_hashes_existing Let_def)
  next
    case (Database t)
    show ?thesis
    proof (cases t)
      case None
      with Some Database show ?thesis
        by (simp add: verify_def verify_result_def verify_events_def isfile_def print_as_upd
            get_hashes_existing Let_def)
    next
      case (Some rows)
      with \<open>files s (path_join d DB_FILE) = Some f\<close> Database show ?thesis
        by (simp add: verify_def verify_result_def verify_events_def isfile_def print_as_upd
            get_hashes_existing verify_loop_eq print_corrupted_eq trace_upd_print
            report_Nil list_all_iff Let_def)
    qed
  qed
qed

lemma select_only_record_events: "list_all select_only (record_events H fs r)"
  by (simp add: record_events_def split: option.split)

lemma select_only_corrupted_lines: "list_all select_only (corrupted_lines c)"
  by (cases c) simp

lemma select_only_verify_events: "list_all select_only (verify_events H s d)"
  by (auto simp: verify_events_def Let_def list_all_iff SQL_SELECT_ALL_def
      dest!: select_only_record_events [unfolded list_all_iff, rule_format]
             select_only_corrupted_lines [unfolded list_all_iff, rule_format]
      split: option.split sqlite_file.split)

subsection \<open>Statements on the store\<close>







subsection \<open>The loop of generate on a usable store\<close>

lemma store_rows_trace [simp]:
  "store_rows (s\<lparr>trace := t\<rparr>) db_file = store_rows s db_file"
  "store_rows (emit e s) db_file = store_rows s db_file"
  "store_rows (print l s) db_file = store_rows s db_file"
  by (simp_all add: store_rows_def)






subsection \<open>The example directory\<close>

lemma example_simps [simp]:
  "isdir (example_state store) p = (p = ''d'')"
  "files (example_state store) ''d/a.mp4'' = Some \<lparr>bytes = [0x58], sqlite = NotADatabase\<rparr>"
  "files (example_state store) ''d/b.txt'' = Some \<lparr>bytes = [], sqlite = Database None\<rparr>"
  "files (example_state store) ''d/zz.mp4'' = None"
  "files (example_state store) ''d/hashmyfiles.db'' =
     map_option (\<lambda>db. \<lparr>bytes = example_image db, sqlite = db\<rparr>) store"
  "trace (example_state store) = []"
  "path_join ''d'' DB_FILE = ''d/hashmyfiles.db''"
  by (simp_all add: example_state_def path_join_def DB_FILE_def startswith_def endswith_def)

lemma example_digest_simps [simp]:
  "sha256_hexdigest example_digest [] = ''0''"
  "sha256_hexdigest example_digest [b] = ''1''"
  by (simp_all add: sha256_hexdigest_def example_digest_def sha256_update_def str_nat.simps
      digit_def)


lemma example_walk [simp]:
  "walk (example_state (Some db)) ''d'' = [(''d'', [], [''a.mp4'', ''b.txt'', ''hashmyfiles.db''])]"
  by (simp add: example_state_def)

lemma example_candidates [simp]:
  "find_files_with_extension ((example_state (Some db))\<lparr>trace := t\<rparr>) ''d'' MEDIA_EXTENSIONS
     = [''d/a.mp4'']"
  by (simp add: find_files_with_extension_def endswith_any_def endswith_def
      MEDIA_EXTENSIONS_def path_join_def startswith_def)


subsection \<open>What generate hashes and inserts\<close>








lemma example_fresh_fields [simp]:
  "files (example_state None) ''d/hashmyfiles.db'' = None"
  "creatable (example_state None) ''d/hashmyfiles.db''"
  "sqlite_image (example_state store) = example_image"
  "walk (example_state None) ''d'' = [(''d'', [], [''a.mp4'', ''b.txt''])]"
  by (simp_all add: example_state_def)


section \<open>The properties of the specification\<close>








text \<open>
  C8. When the store file of the directory does not exist, verify prints the message
  that tells the operator to generate hashes first and exits with code 1; it does nothing
  else: no query, no file hashed, the state otherwise as it was.
\<close>

theorem verify_without_store:
  assumes "\<not> isfile s (path_join d DB_FILE)"
  shows "verify H s d =
     (SystemExit 1,
      s\<lparr>trace := trace s @
          [Print (path_join d DB_FILE @ '' does not exist. Please generate hashes first.'')]\<rparr>)"
  using assms by (simp add: verify_def print_as_upd Let_def)

theorem verify_without_store_witness:
  "\<not> isfile (example_state None) (path_join ''d'' DB_FILE)
   \<and> fst (verify example_digest (example_state None) ''d'') = SystemExit 1
   \<and> trace (snd (verify example_digest (example_state None) ''d'')) =
       [Print ''d/hashmyfiles.db does not exist. Please generate hashes first.'']"
  using verify_without_store [of "example_state None" "''d''" example_digest]
  by (simp add: isfile_def)

text \<open>
  C10. verify never modifies the record store. Whatever the directory and however many
  records are corrupted, the state after a run is the state before it but for the trace:
  the files, and so the records of every store, are the same; and every query the run
  sent is a \<^verbatim>\<open>SELECT\<close>.
\<close>

theorem verify_leaves_store_unchanged:
  "(snd (verify H s d))\<lparr>trace := trace s\<rparr> = s
   \<and> files (snd (verify H s d)) = files s
   \<and> store_rows (snd (verify H s d)) db_file = store_rows s db_file
   \<and> list_all select_only (new_events s (snd (verify H s d)))"
  by (simp add: verify_eq store_rows_def new_events_def select_only_verify_events)

text \<open>
  C7. For a path that is not a directory, generate prints that it is not one and exits
  with code 1. It does nothing before that: no store file is created, nothing is
  hashed, no statement is sent to a store.
\<close>

theorem generate_not_a_directory:
  assumes "\<not> isdir s d"
  shows "generate H s d = (SystemExit 1, s\<lparr>trace := trace s @ [Print (d @ '' is not a directory'')]\<rparr>)
    \<and> files (snd (generate H s d)) = files s
    \<and> isfile (snd (generate H s d)) (path_join d DB_FILE) = isfile s (path_join d DB_FILE)
    \<and> hashed (new_events s (snd (generate H s d))) = []"
  using assms by (simp add: generate_def print_as_upd new_events_def isfile_def)

theorem generate_not_a_directory_witness:
  "\<not> isdir (example_state None) ''nowhere''
   \<and> fst (generate example_digest (example_state None) ''nowhere'') = SystemExit 1
   \<and> trace (snd (generate example_digest (example_state None) ''nowhere''))
       = [Print ''nowhere is not a directory'']
   \<and> \<not> isfile (snd (generate example_digest (example_state None) ''nowhere''))
         (path_join ''nowhere'' DB_FILE)"
  using generate_not_a_directory [of "example_state None" "''nowhere''" example_digest]
  by (simp add: isfile_def example_state_def path_join_def DB_FILE_def startswith_def
      endswith_def)

text \<open>
  C9. With fewer than two arguments after the program name, the command line prints an
  error and exits with code 1; so it does when the first argument is neither \<^verbatim>\<open>-g\<close> nor
  \<^verbatim>\<open>-v\<close>. In both cases nothing else happens: generate and verify are not run.
  \<^verbatim>\<open>-g\<close> runs generate on the second argument, \<^verbatim>\<open>-v\<close> runs verify on it.
\<close>

theorem main_dispatch:
  "(length (drop 1 argv) < 2 \<longrightarrow>
      main H s argv = (SystemExit 1, s\<lparr>trace := trace s @ [Print ''Not enough arguments'']\<rparr>))
   \<and> main H s (prog # ''-g'' # directory # rest) = generate H s directory
   \<and> main H s (prog # ''-v'' # directory # rest) = verify H s directory
   \<and> (option \<noteq> ''-g'' \<and> option \<noteq> ''-v'' \<longrightarrow>
        main H s (prog # option # directory # rest)
          = (SystemExit 1, s\<lparr>trace := trace s @ [Print ''Invalid option'']\<rparr>))"
  by (simp add: main_def print_as_upd Let_def)

theorem main_dispatch_witness:
  "main example_digest (example_state None) [''main.py'', ''-g'']
     = (SystemExit 1, (example_state None)\<lparr>trace := [Print ''Not enough arguments'']\<rparr>)
   \<and> main example_digest (example_state None) [''main.py'', ''-x'', ''d'']
     = (SystemExit 1, (example_state None)\<lparr>trace := [Print ''Invalid option'']\<rparr>)
   \<and> main example_digest (example_state None) [''main.py'', ''-v'', ''d'']
     = verify example_digest (example_state None) ''d''"
  using main_dispatch [of "[''main.py'', ''-g'']" example_digest "example_state None"
      "''main.py''" "''d''" "[]" "''-x''"]
  by simp







end
